theory Spec2Isabelle
  imports Main
begin

section \<open>Strings, time and validation errors\<close>

text \<open>
  A Python \<open>str\<close> is modelled by a \<open>string\<close> whose characters are the code points
  below 256. \<open>isspace\<close>, \<open>strip\<close> and \<open>lower\<close> are \<open>str.isspace\<close>, \<open>str.strip()\<close>
  and \<open>str.lower()\<close> on that range: the white space there is U+0009..U+000D,
  U+001C..U+0020, U+0085 and U+00A0, and the upper-case letters are A..Z and
  U+00C0..U+00DE without the multiplication sign U+00D7.
\<close>

definition isspace :: "char \<Rightarrow> bool" where
  "isspace c =
     (let n = (of_char c :: nat)
      in (9 \<le> n \<and> n \<le> 13) \<or> (28 \<le> n \<and> n \<le> 32) \<or> n = 133 \<or> n = 160)"

definition strip :: "string \<Rightarrow> string" where
  "strip s = rev (dropWhile isspace (rev (dropWhile isspace s)))"

definition lower_char :: "char \<Rightarrow> char" where
  "lower_char c =
     (let n = (of_char c :: nat)
      in if (65 \<le> n \<and> n \<le> 90) \<or> (192 \<le> n \<and> n \<le> 222 \<and> n \<noteq> 215)
         then char_of (n + 32) else c)"

definition lower :: "string \<Rightarrow> string" where
  "lower s = map lower_char s"

text \<open>
  The lookup \<open>email__iexact\<close> is a case-insensitive comparison carried out by the
  database; it is modelled as equality of the lower-cased strings.
\<close>

definition iexact :: "string \<Rightarrow> string \<Rightarrow> bool" where
  "iexact a b = (lower a = lower b)"

text \<open>
  A point in time is a number of microseconds, the resolution of a Python
  \<open>datetime\<close>; \<open>timedelta_minutes n\<close> is \<open>timedelta(minutes=n)\<close>.
\<close>

type_synonym datetime = int

definition timedelta_minutes :: "int \<Rightarrow> int" where
  "timedelta_minutes n = n * 60000000"

text \<open>
  \<open>serializers.ValidationError\<close> is raised either with a dictionary of one field name
  and its message or with a plain message.
\<close>

datatype detail = Keyed string string | Plain string

datatype error = ValidationError detail

section \<open>Start time of an upcoming session\<close>

text \<open>\<open>UpcomingSessionSerializer.validate_start_time\<close>; \<open>now\<close> is \<open>timezone.now()\<close>.\<close>

definition validate_start_time :: "datetime \<Rightarrow> datetime \<Rightarrow> error + datetime" where
  "validate_start_time now v =
     (if v < now - timedelta_minutes 1
      then Inl (ValidationError (Plain ''Start time must be in the future.''))
      else Inr v)"

section \<open>The one-time-password records\<close>

text \<open>
  Modelled from the spec: the model class \<open>EmailOTP\<close> is declared outside the source
  at hand. The record has the fields the serializers read and write, with the primary
  key \<open>pk\<close> that \<open>save\<close> and \<open>delete\<close> address a row by; \<open>purpose\<close> is an enumeration
  with at least the value used for registration.
\<close>

datatype purpose = PURPOSE_REGISTRATION | PURPOSE_OTHER nat

record EmailOTP =
  pk :: nat
  email :: string
  code :: string
  token :: string
  purpose :: purpose
  created_at :: datetime
  attempts :: int
  is_verified :: bool

text \<open>
  Modelled from the spec: the property \<open>is_expired\<close> of \<open>EmailOTP\<close>, true when the
  current time exceeds \<open>created_at\<close> plus a fixed validity window \<open>ttl\<close>, which is
  configuration.
\<close>

definition is_expired :: "int \<Rightarrow> datetime \<Rightarrow> EmailOTP \<Rightarrow> bool" where
  "is_expired ttl now r = (created_at r + ttl < now)"

text \<open>
  The table of records is a list of rows. \<open>order_by_created_desc_first\<close> is
  \<open>.order_by("-created_at").first()\<close>: a row with the greatest \<open>created_at\<close>, or
  nothing for an empty query set. Among rows with equal time stamps the database is
  free to choose; the model takes the earliest row of the table.
\<close>

fun order_by_created_desc_first :: "EmailOTP list \<Rightarrow> EmailOTP option" where
  "order_by_created_desc_first [] = None"
| "order_by_created_desc_first (r # rs) =
     (case order_by_created_desc_first rs of
        None \<Rightarrow> Some r
      | Some s \<Rightarrow> if created_at r < created_at s then Some s else Some r)"

text \<open>\<open>otp.save(update_fields=["attempts"])\<close> writes one column of the row with the key.\<close>

definition save_attempts :: "EmailOTP list \<Rightarrow> nat \<Rightarrow> int \<Rightarrow> EmailOTP list" where
  "save_attempts db k v = map (\<lambda>r. if pk r = k then r\<lparr>attempts := v\<rparr> else r) db"

text \<open>\<open>otp_instance.delete()\<close> removes the row with the key.\<close>

definition delete :: "EmailOTP list \<Rightarrow> nat \<Rightarrow> EmailOTP list" where
  "delete db k = filter (\<lambda>r. pk r \<noteq> k) db"

section \<open>Verification of a submitted code\<close>

record verify_attrs =
  va_email :: string
  va_code :: string

definition NotFound :: error where
  "NotFound = ValidationError (Keyed ''email'' ''No OTP request found for this email.'')"

definition Expired :: error where
  "Expired = ValidationError (Keyed ''code'' ''OTP has expired. Please request a new one.'')"

definition AttemptsExceeded :: error where
  "AttemptsExceeded =
     ValidationError (Keyed ''code'' ''Too many attempts. Please request a new OTP.'')"

definition CodeMismatch :: error where
  "CodeMismatch = ValidationError (Keyed ''code'' ''Incorrect OTP code.'')"

text \<open>The query of \<open>VerifyOTPSerializer.validate\<close>, after its normalisation of the email.\<close>

definition verify_lookup :: "EmailOTP list \<Rightarrow> string \<Rightarrow> EmailOTP option" where
  "verify_lookup db e =
     order_by_created_desc_first
       (filter (\<lambda>r. iexact (email r) e \<and> purpose r = PURPOSE_REGISTRATION) db)"

text \<open>
  \<open>VerifyOTPSerializer.validate\<close>. The result is the raised error or the record put into
  \<open>attrs["otp"]\<close>, together with the table as the call leaves it.
\<close>

definition VerifyOTPSerializer_validate ::
  "int \<Rightarrow> datetime \<Rightarrow> EmailOTP list \<Rightarrow> verify_attrs \<Rightarrow> (error + EmailOTP) \<times> EmailOTP list" where
  "VerifyOTPSerializer_validate ttl now db attrs =
     (let e = lower (strip (va_email attrs));
          c = strip (va_code attrs)
      in case verify_lookup db e of
           None \<Rightarrow> (Inl NotFound, db)
         | Some otp \<Rightarrow>
             if is_expired ttl now otp then (Inl Expired, db)
             else if attempts otp \<ge> 5 then (Inl AttemptsExceeded, db)
             else if code otp \<noteq> c
               then (Inl CodeMismatch, save_attempts db (pk otp) (attempts otp + 1))
             else (Inr otp, db))"

section \<open>Registration\<close>

text \<open>
  The validated fields \<open>RegisterSerializer.validate\<close> reads: \<open>attrs.get("email")\<close>,
  which is absent when the request has no email, and \<open>attrs.get("otp_token")\<close>, a
  required field.
\<close>

record register_attrs =
  ra_email :: "string option"
  ra_otp_token :: string

definition EmailRequired :: error where
  "EmailRequired = ValidationError (Keyed ''email'' ''Email is required for registration.'')"

definition InvalidOrExpiredToken :: error where
  "InvalidOrExpiredToken =
     ValidationError (Keyed ''otp_token'' ''The provided OTP token is invalid or expired.'')"

definition register_lookup :: "EmailOTP list \<Rightarrow> string \<Rightarrow> string \<Rightarrow> EmailOTP option" where
  "register_lookup db t e =
     order_by_created_desc_first
       (filter (\<lambda>r. token r = t \<and> purpose r = PURPOSE_REGISTRATION \<and> iexact (email r) e) db)"

text \<open>
  \<open>RegisterSerializer.validate\<close>. It only reads the table; on success the record is
  what it stores in \<open>self.context["otp_instance"]\<close>.
\<close>

definition RegisterSerializer_validate ::
  "int \<Rightarrow> datetime \<Rightarrow> EmailOTP list \<Rightarrow> register_attrs \<Rightarrow> error + EmailOTP" where
  "RegisterSerializer_validate ttl now db attrs =
     (case ra_email attrs of
        None \<Rightarrow> Inl EmailRequired
      | Some e \<Rightarrow>
          if e = [] then Inl EmailRequired
          else (case register_lookup db (ra_otp_token attrs) e of
                  None \<Rightarrow> Inl InvalidOrExpiredToken
                | Some otp \<Rightarrow>
                    if \<not> is_verified otp \<or> is_expired ttl now otp
                    then Inl InvalidOrExpiredToken
                    else Inr otp))"

text \<open>
  \<open>RegisterSerializer.create\<close>. Creating the user and its profile is the work of the
  user directory, outside this source: \<open>account\<close> is its outcome, an exception or the
  new user. An exception leaves \<open>create\<close> before the record is deleted.
\<close>

definition RegisterSerializer_create ::
  "'x + 'u \<Rightarrow> EmailOTP list \<Rightarrow> EmailOTP \<Rightarrow> ('x + 'u) \<times> EmailOTP list" where
  "RegisterSerializer_create account db otp_instance =
     (case account of
        Inl x \<Rightarrow> (Inl x, db)
      | Inr user \<Rightarrow> (Inr user, delete db (pk otp_instance)))"

text \<open>
  Requests to verify a code, served one after the other: each is the time of the call
  and its fields. The results are returned in order, with the table at the end.
\<close>

fun verify_seq ::
  "int \<Rightarrow> EmailOTP list \<Rightarrow> (datetime \<times> verify_attrs) list \<Rightarrow>
   (error + EmailOTP) list \<times> EmailOTP list" where
  "verify_seq ttl db [] = ([], db)"
| "verify_seq ttl db (c # cs) =
     (let (res, db1) = VerifyOTPSerializer_validate ttl (fst c) db (snd c);
          (rs, db2) = verify_seq ttl db1 cs
      in (res # rs, db2))"

text \<open>A record for the examples: issued at time 0 for \<open>a@x.com\<close> with the code 123456.\<close>

abbreviation otp1 :: EmailOTP where
  "otp1 \<equiv> \<lparr>pk = 1, email = ''a@x.com'', code = ''123456'', token = ''t1'',
      purpose = PURPOSE_REGISTRATION, created_at = 0, attempts = 0,
      is_verified = False\<rparr>"

section \<open>Facts about the table operations\<close>

lemmas error_defs =
  NotFound_def Expired_def AttemptsExceeded_def CodeMismatch_def
  EmailRequired_def InvalidOrExpiredToken_def

lemma first_None: "(order_by_created_desc_first xs = None) = (xs = [])"
  by (induction xs) (auto split: option.splits)

lemma first_mem: "order_by_created_desc_first xs = Some r \<Longrightarrow> r \<in> set xs"
  by (induction xs arbitrary: r) (auto split: option.splits if_splits)

lemma first_max:
  "order_by_created_desc_first xs = Some r \<Longrightarrow> s \<in> set xs \<Longrightarrow> created_at s \<le> created_at r"
proof (induction xs arbitrary: r)
  case Nil
  then show ?case by simp
next
  case (Cons a xs)
  show ?case
  proof (cases "order_by_created_desc_first xs")
    case None
    then have "xs = []" by (simp add: first_None)
    with Cons.prems None show ?thesis by simp
  next
    case (Some t)
    from Cons.prems(1) Some have r: "r = (if created_at a < created_at t then t else a)"
      by (simp split: if_splits)
    from Cons.prems(2) have "s = a \<or> s \<in> set xs" by simp
    then show ?thesis
    proof
      assume "s = a" with r show ?thesis by simp
    next
      assume "s \<in> set xs"
      from Cons.IH [OF Some this] r show ?thesis by (simp split: if_splits)
    qed
  qed
qed

lemma first_newest:
  assumes r: "r \<in> set xs"
    and new: "\<forall>s \<in> set xs. s \<noteq> r \<longrightarrow> created_at s < created_at r"
  shows "order_by_created_desc_first xs = Some r"
proof -
  from r have "xs \<noteq> []" by auto
  then obtain t where t: "order_by_created_desc_first xs = Some t"
    using first_None [of xs] by (cases "order_by_created_desc_first xs") auto
  have "t \<in> set xs" using first_mem [OF t] .
  moreover have "created_at r \<le> created_at t" using first_max [OF t r] .
  ultimately have "t = r" using new by fastforce
  with t show ?thesis by simp
qed

lemma save_attempts_pk: "map pk (save_attempts db k v) = map pk db"
  by (simp add: save_attempts_def)


lemma save_attempts_changes:
  assumes r: "r \<in> set db" and v: "v \<noteq> attempts r"
  shows "save_attempts db (pk r) v \<noteq> db"
proof
  assume eq: "save_attempts db (pk r) v = db"
  have "\<forall>x \<in> set db. (if pk x = pk r then x\<lparr>attempts := v\<rparr> else x) = x"
    using eq unfolding save_attempts_def by (simp add: map_eq_conv [symmetric])
  with r have "r\<lparr>attempts := v\<rparr> = r" by auto
  then have "attempts (r\<lparr>attempts := v\<rparr>) = attempts r" by simp
  with v show False by simp
qed

lemma verify_lookup_mem: "verify_lookup db e = Some r \<Longrightarrow> r \<in> set db"
  unfolding verify_lookup_def by (drule first_mem) simp

lemma verify_lookup_match:
  "verify_lookup db e = Some r \<Longrightarrow> iexact (email r) e \<and> purpose r = PURPOSE_REGISTRATION"
  unfolding verify_lookup_def by (drule first_mem) simp

lemma dropWhile_same_length: "length (dropWhile P xs) = length xs \<Longrightarrow> dropWhile P xs = xs"
proof (cases xs)
  case Nil
  then show ?thesis by simp
next
  case (Cons x ys)
  assume len: "length (dropWhile P xs) = length xs"
  show ?thesis
  proof (cases "P x")
    case True
    have "length (dropWhile P ys) \<le> length ys" by (rule length_dropWhile_le)
    with True Cons len show ?thesis by simp
  next
    case False
    with Cons show ?thesis by simp
  qed
qed

lemma strip_same_length: "length (strip s) = length s \<Longrightarrow> strip s = s"
proof -
  assume len: "length (strip s) = length s"
  have a: "length (strip s) \<le> length (dropWhile isspace s)"
    using length_dropWhile_le [of isspace "rev (dropWhile isspace s)"] by (simp add: strip_def)
  have b: "length (dropWhile isspace s) \<le> length s" by (rule length_dropWhile_le)
  from a b len have l1: "length (dropWhile isspace s) = length s" by simp
  then have d1: "dropWhile isspace s = s" by (rule dropWhile_same_length)
  from len d1 have "length (dropWhile isspace (rev s)) = length (rev s)" by (simp add: strip_def)
  then have "dropWhile isspace (rev s) = rev s" by (rule dropWhile_same_length)
  with d1 show ?thesis by (simp add: strip_def)
qed

lemma pk_identifies:
  "distinct (map pk db) \<Longrightarrow> r \<in> set db \<Longrightarrow> x \<in> set db \<Longrightarrow> (pk x = pk r) = (x = r)"
  by (auto simp: distinct_map dest: inj_onD)

lemma save_attempts_distinct:
  assumes d: "distinct (map pk db)" and r: "r \<in> set db"
  shows "save_attempts db (pk r) v = map (\<lambda>x. if x = r then x\<lparr>attempts := v\<rparr> else x) db"
  unfolding save_attempts_def
  by (rule map_cong [OF refl]) (simp add: pk_identifies [OF d r])

lemma verify_locked_step:
  assumes "verify_lookup db (lower (strip (va_email a))) = Some r" and "5 \<le> attempts r"
  shows "VerifyOTPSerializer_validate ttl now db a =
           (if is_expired ttl now r then Inl Expired else Inl AttemptsExceeded, db)"
  using assms by (simp add: VerifyOTPSerializer_validate_def)

lemma verify_validate_pks: "map pk (snd (VerifyOTPSerializer_validate ttl now db attrs)) = map pk db"
  by (simp add: VerifyOTPSerializer_validate_def save_attempts_pk split: option.splits)



lemma verify_lookup_None:
  "(verify_lookup db e = None) =
     (\<forall>r \<in> set db. \<not> (iexact (email r) e \<and> purpose r = PURPOSE_REGISTRATION))"
  unfolding verify_lookup_def by (simp add: first_None filter_empty_conv)

lemma verify_lookup_max:
  "verify_lookup db e = Some r \<Longrightarrow> s \<in> set db \<Longrightarrow>
   iexact (email s) e \<and> purpose s = PURPOSE_REGISTRATION \<Longrightarrow> created_at s \<le> created_at r"
  unfolding verify_lookup_def by (erule first_max) simp

lemma verify_lookup_newest:
  assumes "r \<in> set db" and "iexact (email r) e \<and> purpose r = PURPOSE_REGISTRATION"
    and "\<forall>s \<in> set db. iexact (email s) e \<and> purpose s = PURPOSE_REGISTRATION \<and> s \<noteq> r \<longrightarrow>
           created_at s < created_at r"
  shows "verify_lookup db e = Some r"
  unfolding verify_lookup_def using assms by (intro first_newest) auto

lemma verify_validate_keeps_others:
  assumes d: "distinct (map pk db)" and r: "r \<in> set db"
    and n: "verify_lookup db (lower (strip (va_email attrs))) \<noteq> Some r"
  shows "r \<in> set (snd (VerifyOTPSerializer_validate ttl now db attrs))"
proof (cases "verify_lookup db (lower (strip (va_email attrs)))")
  case None
  with r show ?thesis by (simp add: VerifyOTPSerializer_validate_def)
next
  case (Some otp)
  have mem: "otp \<in> set db" using verify_lookup_mem [OF Some] .
  from n Some have ne: "r \<noteq> otp" by auto
  have "r \<in> set (save_attempts db (pk otp) v)" for v
    unfolding save_attempts_distinct [OF d mem] using r ne by force
  with Some r show ?thesis by (simp add: VerifyOTPSerializer_validate_def)
qed

lemma register_lookup_mem: "register_lookup db t e = Some r \<Longrightarrow> r \<in> set db"
  unfolding register_lookup_def by (drule first_mem) simp

lemma register_lookup_match:
  "register_lookup db t e = Some r \<Longrightarrow>
     token r = t \<and> purpose r = PURPOSE_REGISTRATION \<and> iexact (email r) e"
  unfolding register_lookup_def by (drule first_mem) simp

lemma register_lookup_None:
  "(register_lookup db t e = None) =
     (\<forall>r \<in> set db. \<not> (token r = t \<and> purpose r = PURPOSE_REGISTRATION \<and> iexact (email r) e))"
  unfolding register_lookup_def by (simp add: first_None filter_empty_conv)

lemma register_lookup_max:
  "register_lookup db t e = Some r \<Longrightarrow> s \<in> set db \<Longrightarrow>
   token s = t \<and> purpose s = PURPOSE_REGISTRATION \<and> iexact (email s) e \<Longrightarrow>
   created_at s \<le> created_at r"
  unfolding register_lookup_def by (erule first_max) simp



section \<open>Properties of the start-time check\<close>

text \<open>
  C10. The start time of an upcoming session is accepted exactly when it is no earlier
  than one minute (60 seconds, 60000000 microseconds) before the current time, so a
  start time up to 60 seconds in the past passes; an earlier one is rejected, with the
  message that the start time must be in the future.
\<close>

theorem validate_start_time_one_minute_grace:
  "(validate_start_time now v = Inr v) = (now - 60000000 \<le> v) \<and>
   (validate_start_time now v =
      Inl (ValidationError (Plain ''Start time must be in the future.'')))
     = (v < now - 60000000)"
  by (simp add: validate_start_time_def timedelta_minutes_def)

theorem validate_start_time_one_minute_grace_witness:
  "validate_start_time 100000000 40000000 = Inr 40000000 \<and>
   validate_start_time 100000000 39999999 =
     Inl (ValidationError (Plain ''Start time must be in the future.''))"
  using validate_start_time_one_minute_grace [of 100000000 40000000]
        validate_start_time_one_minute_grace [of 100000000 39999999]
  by simp

section \<open>Properties of the verification of a code\<close>

text \<open>
  C1. The checks of a verification run in the fixed order not found, expired, too many
  attempts, code mismatch, each with an error of its own, and the first that fails
  decides the error: the error returned tells which check failed after all earlier ones
  passed. For a record that is both expired and at the limit of attempts the error is
  the one for expiry.
\<close>

theorem verify_check_order:
  "distinct [NotFound, Expired, AttemptsExceeded, CodeMismatch] \<and>
   ((fst (VerifyOTPSerializer_validate ttl now db attrs) = Inl NotFound) =
      (verify_lookup db (lower (strip (va_email attrs))) = None)) \<and>
   ((fst (VerifyOTPSerializer_validate ttl now db attrs) = Inl Expired) =
      (\<exists>r. verify_lookup db (lower (strip (va_email attrs))) = Some r \<and>
           is_expired ttl now r)) \<and>
   ((fst (VerifyOTPSerializer_validate ttl now db attrs) = Inl AttemptsExceeded) =
      (\<exists>r. verify_lookup db (lower (strip (va_email attrs))) = Some r \<and>
           \<not> is_expired ttl now r \<and> 5 \<le> attempts r)) \<and>
   ((fst (VerifyOTPSerializer_validate ttl now db attrs) = Inl CodeMismatch) =
      (\<exists>r. verify_lookup db (lower (strip (va_email attrs))) = Some r \<and>
           \<not> is_expired ttl now r \<and> attempts r < 5 \<and>
           code r \<noteq> strip (va_code attrs))) \<and>
   (\<forall>r. verify_lookup db (lower (strip (va_email attrs))) = Some r \<and>
        is_expired ttl now r \<and> 5 \<le> attempts r \<longrightarrow>
        fst (VerifyOTPSerializer_validate ttl now db attrs) = Inl Expired)"
proof (cases "verify_lookup db (lower (strip (va_email attrs)))")
  case None
  then show ?thesis
    by (simp add: VerifyOTPSerializer_validate_def error_defs)
next
  case (Some r)
  then show ?thesis
    by (simp add: VerifyOTPSerializer_validate_def error_defs)
qed

theorem verify_check_order_witness:
  "fst (VerifyOTPSerializer_validate 600 1000 [otp1\<lparr>attempts := 5\<rparr>]
         \<lparr>va_email = ''a@x.com'', va_code = ''123456''\<rparr>) = Inl Expired"
proof -
  have "verify_lookup [otp1\<lparr>attempts := 5\<rparr>]
          (lower (strip (va_email \<lparr>va_email = ''a@x.com'', va_code = ''123456''\<rparr>)))
        = Some (otp1\<lparr>attempts := 5\<rparr>)"
    by code_simp
  moreover have "is_expired 600 1000 (otp1\<lparr>attempts := 5\<rparr>)"
    by (simp add: is_expired_def)
  ultimately show ?thesis
    using verify_check_order [of 600 1000 "[otp1\<lparr>attempts := 5\<rparr>]"
        "\<lparr>va_email = ''a@x.com'', va_code = ''123456''\<rparr>"]
    by simp
qed

text \<open>
  C2, as the code has it. When all four checks pass (a record is found, it is not
  expired, its attempts are below 5 and its code equals the submitted code with the
  surrounding white space removed), and only then, the validation succeeds and returns
  that record, a row of the table. It writes nothing: the table, with the flag
  \<open>is_verified\<close> of the record, is as before. Setting the flag is left to the caller
  of the serializer.
\<close>

theorem verify_success_returns_record:
  "((fst (VerifyOTPSerializer_validate ttl now db attrs) = Inr r) =
      (verify_lookup db (lower (strip (va_email attrs))) = Some r \<and>
       \<not> is_expired ttl now r \<and> attempts r < 5 \<and> code r = strip (va_code attrs))) \<and>
   (fst (VerifyOTPSerializer_validate ttl now db attrs) = Inr r \<longrightarrow>
      r \<in> set db \<and> snd (VerifyOTPSerializer_validate ttl now db attrs) = db)"
proof (cases "verify_lookup db (lower (strip (va_email attrs)))")
  case None
  then show ?thesis by (simp add: VerifyOTPSerializer_validate_def)
next
  case (Some otp)
  have "otp \<in> set db" using verify_lookup_mem [OF Some] .
  with Some show ?thesis by (auto simp: VerifyOTPSerializer_validate_def)
qed

theorem verify_success_returns_record_witness:
  "VerifyOTPSerializer_validate 600 100 [otp1] \<lparr>va_email = ''a@x.com'', va_code = ''123456''\<rparr>
     = (Inr otp1, [otp1])"
proof -
  have "verify_lookup [otp1]
          (lower (strip (va_email \<lparr>va_email = ''a@x.com'', va_code = ''123456''\<rparr>)))
        = Some otp1"
    by code_simp
  moreover have "\<not> is_expired 600 100 otp1" by (simp add: is_expired_def)
  moreover have "strip (va_code \<lparr>va_email = ''a@x.com'', va_code = ''123456''\<rparr>) = code otp1"
    by code_simp
  ultimately show ?thesis
    using verify_success_returns_record [of 600 100 "[otp1]"
        "\<lparr>va_email = ''a@x.com'', va_code = ''123456''\<rparr>" otp1]
    by (simp add: prod_eq_iff)
qed

text \<open>
  The claim C2 as stated, that a successful validation marks the record verified, fails:
  after a successful call the returned record and the stored row have \<open>is_verified\<close>
  false.
\<close>

theorem verify_success_leaves_flag_counterexample:
  "fst (VerifyOTPSerializer_validate 600 100 [otp1] \<lparr>va_email = ''a@x.com'', va_code = ''123456''\<rparr>)
     = Inr otp1 \<and>
   snd (VerifyOTPSerializer_validate 600 100 [otp1] \<lparr>va_email = ''a@x.com'', va_code = ''123456''\<rparr>)
     = [otp1] \<and>
   \<not> is_verified otp1"
  by code_simp

text \<open>
  C3, as the code has it. For the record a call selects (found, not expired, attempts
  below 5) the submitted code is accepted exactly when, after its surrounding white
  space is removed, it equals the stored code character by character; no change of
  letter case is made. Two submissions accepted for the same stored code are equal after
  removal of the surrounding white space. A submission as long as a stored code that has
  no surrounding white space is accepted exactly when it equals the stored code.
\<close>

theorem verify_code_stripped_then_exact:
  assumes "verify_lookup db (lower (strip (va_email attrs))) = Some r"
    and "\<not> is_expired ttl now r" and "attempts r < 5"
  shows "((fst (VerifyOTPSerializer_validate ttl now db attrs) = Inr r) =
            (strip (va_code attrs) = code r)) \<and>
         (fst (VerifyOTPSerializer_validate ttl now db attrs) = Inr r \<and>
          fst (VerifyOTPSerializer_validate ttl now db (attrs\<lparr>va_code := c\<rparr>)) = Inr r \<longrightarrow>
            strip c = strip (va_code attrs)) \<and>
         (length (va_code attrs) = length (code r) \<and> strip (code r) = code r \<longrightarrow>
            (fst (VerifyOTPSerializer_validate ttl now db attrs) = Inr r) = (va_code attrs = code r))"
proof -
  have eq: "\<And>a. va_email a = va_email attrs \<Longrightarrow>
      (fst (VerifyOTPSerializer_validate ttl now db a) = Inr r) = (strip (va_code a) = code r)"
    using assms by (auto simp: VerifyOTPSerializer_validate_def)
  have one: "(fst (VerifyOTPSerializer_validate ttl now db attrs) = Inr r) =
               (strip (va_code attrs) = code r)"
    by (rule eq) simp
  have two: "(fst (VerifyOTPSerializer_validate ttl now db (attrs\<lparr>va_code := c\<rparr>)) = Inr r) =
               (strip c = code r)"
    using eq [of "attrs\<lparr>va_code := c\<rparr>"] by simp
  have three: "(strip (va_code attrs) = code r) = (va_code attrs = code r)"
    if len: "length (va_code attrs) = length (code r)" and clean: "strip (code r) = code r"
  proof
    assume s: "strip (va_code attrs) = code r"
    with len have "length (strip (va_code attrs)) = length (va_code attrs)" by simp
    then have "strip (va_code attrs) = va_code attrs" by (rule strip_same_length)
    with s show "va_code attrs = code r" by simp
  next
    assume "va_code attrs = code r"
    with clean show "strip (va_code attrs) = code r" by simp
  qed
  show ?thesis
  proof (intro conjI impI)
    show "(fst (VerifyOTPSerializer_validate ttl now db attrs) = Inr r) = (strip (va_code attrs) = code r)"
      by (rule one)
  next
    assume "fst (VerifyOTPSerializer_validate ttl now db attrs) = Inr r \<and>
          fst (VerifyOTPSerializer_validate ttl now db (attrs\<lparr>va_code := c\<rparr>)) = Inr r"
    with one two show "strip c = strip (va_code attrs)" by simp
  next
    assume "length (va_code attrs) = length (code r) \<and> strip (code r) = code r"
    then have "(strip (va_code attrs) = code r) = (va_code attrs = code r)"
      using three by blast
    with one show "(fst (VerifyOTPSerializer_validate ttl now db attrs) = Inr r) = (va_code attrs = code r)"
      by simp
  qed
qed

theorem verify_code_stripped_then_exact_witness:
  "fst (VerifyOTPSerializer_validate 600 100 [otp1\<lparr>code := ''aBc123''\<rparr>]
         \<lparr>va_email = ''a@x.com'', va_code = '' aBc123''\<rparr>) = Inr (otp1\<lparr>code := ''aBc123''\<rparr>) \<and>
   fst (VerifyOTPSerializer_validate 600 100 [otp1\<lparr>code := ''aBc123''\<rparr>]
         \<lparr>va_email = ''a@x.com'', va_code = ''abc123''\<rparr>) \<noteq> Inr (otp1\<lparr>code := ''aBc123''\<rparr>)"
proof -
  have l1: "verify_lookup [otp1\<lparr>code := ''aBc123''\<rparr>]
             (lower (strip (va_email \<lparr>va_email = ''a@x.com'', va_code = '' aBc123''\<rparr>)))
           = Some (otp1\<lparr>code := ''aBc123''\<rparr>)"
    by code_simp
  have l2: "verify_lookup [otp1\<lparr>code := ''aBc123''\<rparr>]
             (lower (strip (va_email \<lparr>va_email = ''a@x.com'', va_code = ''abc123''\<rparr>)))
           = Some (otp1\<lparr>code := ''aBc123''\<rparr>)"
    by code_simp
  have x: "\<not> is_expired 600 100 (otp1\<lparr>code := ''aBc123''\<rparr>)"
    by (simp add: is_expired_def)
  have a: "attempts (otp1\<lparr>code := ''aBc123''\<rparr>) < 5" by simp
  have s1: "strip (va_code \<lparr>va_email = ''a@x.com'', va_code = '' aBc123''\<rparr>)
              = code (otp1\<lparr>code := ''aBc123''\<rparr>)"
    by code_simp
  have s2: "strip (va_code \<lparr>va_email = ''a@x.com'', va_code = ''abc123''\<rparr>)
              \<noteq> code (otp1\<lparr>code := ''aBc123''\<rparr>)"
    by code_simp
  from verify_code_stripped_then_exact [OF l1 x a, THEN conjunct1] s1
  have one: "fst (VerifyOTPSerializer_validate 600 100 [otp1\<lparr>code := ''aBc123''\<rparr>]
         \<lparr>va_email = ''a@x.com'', va_code = '' aBc123''\<rparr>) = Inr (otp1\<lparr>code := ''aBc123''\<rparr>)"
    by (rule iffD2)
  from verify_code_stripped_then_exact [OF l2 x a, THEN conjunct1] s2
  have two: "fst (VerifyOTPSerializer_validate 600 100 [otp1\<lparr>code := ''aBc123''\<rparr>]
         \<lparr>va_email = ''a@x.com'', va_code = ''abc123''\<rparr>) \<noteq> Inr (otp1\<lparr>code := ''aBc123''\<rparr>)"
    by blast
  from one two show ?thesis by (rule conjI)
qed

text \<open>
  The claim C3 as stated, that the submitted code is compared without normalisation,
  fails: for the stored code 123456 the submissions \<open>123456\<close> and the same digits
  with a blank before and after, two different strings, are both accepted.
\<close>

theorem verify_code_stripped_counterexample:
  "fst (VerifyOTPSerializer_validate 600 100 [otp1] \<lparr>va_email = ''a@x.com'', va_code = ''123456''\<rparr>)
     = Inr otp1 \<and>
   fst (VerifyOTPSerializer_validate 600 100 [otp1] \<lparr>va_email = ''a@x.com'', va_code = '' 123456 ''\<rparr>)
     = Inr otp1 \<and>
   '' 123456 '' \<noteq> ''123456'' \<and> code otp1 = ''123456''"
  by code_simp

text \<open>
  C4. A verification changes the table exactly when it fails with the code mismatch.
  Then the attempts of the selected record, a row of the table, are stored increased by
  one, the only column written; where primary keys are distinct no other row and no
  other field changes. When it fails because no record is found, the record is expired
  or the attempts are exhausted, the table is left as it was.
\<close>

theorem verify_attempts_written_only_on_mismatch:
  "((fst (VerifyOTPSerializer_validate ttl now db attrs) = Inl CodeMismatch) =
      (snd (VerifyOTPSerializer_validate ttl now db attrs) \<noteq> db)) \<and>
   (fst (VerifyOTPSerializer_validate ttl now db attrs) = Inl CodeMismatch \<longrightarrow>
      (\<exists>r. verify_lookup db (lower (strip (va_email attrs))) = Some r \<and> r \<in> set db \<and>
           snd (VerifyOTPSerializer_validate ttl now db attrs) =
             save_attempts db (pk r) (attempts r + 1) \<and>
           (distinct (map pk db) \<longrightarrow>
              snd (VerifyOTPSerializer_validate ttl now db attrs) =
                map (\<lambda>x. if x = r then x\<lparr>attempts := attempts r + 1\<rparr> else x) db))) \<and>
   (fst (VerifyOTPSerializer_validate ttl now db attrs) \<in>
      {Inl NotFound, Inl Expired, Inl AttemptsExceeded} \<longrightarrow>
      snd (VerifyOTPSerializer_validate ttl now db attrs) = db)"
proof (cases "verify_lookup db (lower (strip (va_email attrs)))")
  case None
  then show ?thesis by (simp add: VerifyOTPSerializer_validate_def error_defs)
next
  case (Some otp)
  have mem: "otp \<in> set db" using verify_lookup_mem [OF Some] .
  have ch: "save_attempts db (pk otp) (attempts otp + 1) \<noteq> db"
    using save_attempts_changes [OF mem, of "attempts otp + 1"] by simp
  have di: "distinct (map pk db) \<Longrightarrow>
      save_attempts db (pk otp) (attempts otp + 1) =
        map (\<lambda>x. if x = otp then x\<lparr>attempts := attempts otp + 1\<rparr> else x) db"
    by (rule save_attempts_distinct [OF _ mem])
  from Some mem ch di show ?thesis
    by (simp add: VerifyOTPSerializer_validate_def error_defs)
qed

theorem verify_attempts_written_only_on_mismatch_witness:
  "fst (VerifyOTPSerializer_validate 600 100 [otp1] \<lparr>va_email = ''a@x.com'', va_code = ''000000''\<rparr>)
     = Inl CodeMismatch \<and>
   snd (VerifyOTPSerializer_validate 600 100 [otp1] \<lparr>va_email = ''a@x.com'', va_code = ''000000''\<rparr>)
     = [otp1\<lparr>attempts := 1\<rparr>]"
proof -
  have f: "fst (VerifyOTPSerializer_validate 600 100 [otp1]
             \<lparr>va_email = ''a@x.com'', va_code = ''000000''\<rparr>) = Inl CodeMismatch"
    by code_simp
  have l: "verify_lookup [otp1]
             (lower (strip (va_email \<lparr>va_email = ''a@x.com'', va_code = ''000000''\<rparr>)))
           = Some otp1"
    by code_simp
  from f l show ?thesis
    using verify_attempts_written_only_on_mismatch [of 600 100 "[otp1]"
        "\<lparr>va_email = ''a@x.com'', va_code = ''000000''\<rparr>"]
    by (simp add: save_attempts_def)
qed

text \<open>
  C5, as the code has it. Once the attempts of a record have reached 5, every later
  verification that selects the record fails and leaves the table as it is, whatever code
  is submitted, the stored code included: with the error for too many attempts while the
  record is not expired, and with the error for expiry once it is.
\<close>

theorem verify_lockout_dominates:
  assumes "verify_lookup db e = Some r" and "5 \<le> attempts r"
    and "\<forall>c \<in> set cs. lower (strip (va_email (snd c))) = e"
  shows "fst (verify_seq ttl db cs) =
           map (\<lambda>c. if is_expired ttl (fst c) r then Inl Expired else Inl AttemptsExceeded) cs \<and>
         snd (verify_seq ttl db cs) = db"
  using assms(3)
proof (induction cs)
  case Nil
  show ?case by simp
next
  case (Cons c cs)
  from Cons.prems have e: "lower (strip (va_email (snd c))) = e" by simp
  from Cons.prems have rest: "\<forall>c \<in> set cs. lower (strip (va_email (snd c))) = e" by simp
  have step: "VerifyOTPSerializer_validate ttl (fst c) db (snd c) =
      (if is_expired ttl (fst c) r then Inl Expired else Inl AttemptsExceeded, db)"
    by (rule verify_locked_step) (simp_all add: e assms(1,2))
  from Cons.IH [OF rest] step show ?case
    by (simp add: split_beta)
qed

theorem verify_lockout_dominates_witness:
  "verify_seq 600 [otp1\<lparr>attempts := 5\<rparr>]
     [(100, \<lparr>va_email = ''a@x.com'', va_code = ''123456''\<rparr>),
      (5000, \<lparr>va_email = ''a@x.com'', va_code = ''123456''\<rparr>)]
   = ([Inl AttemptsExceeded, Inl Expired], [otp1\<lparr>attempts := 5\<rparr>])"
proof -
  have l: "verify_lookup [otp1\<lparr>attempts := 5\<rparr>] ''a@x.com'' = Some (otp1\<lparr>attempts := 5\<rparr>)"
    by code_simp
  have a: "5 \<le> attempts (otp1\<lparr>attempts := 5\<rparr>)" by simp
  have n: "lower (strip ''a@x.com'') = ''a@x.com''" by code_simp
  have c: "\<forall>c \<in> set [(100, \<lparr>va_email = ''a@x.com'', va_code = ''123456''\<rparr>),
      (5000::int, \<lparr>va_email = ''a@x.com'', va_code = ''123456''\<rparr>)].
        lower (strip (va_email (snd c))) = ''a@x.com''"
    by (simp add: n)
  from verify_lockout_dominates [OF l a c, of 600] show ?thesis
    by (simp add: prod_eq_iff is_expired_def)
qed

text \<open>
  The claim C5 as stated, that such a call fails with the error for too many attempts,
  fails for an expired record: at 5 attempts and with the stored code submitted the error
  is the one for expiry.
\<close>

theorem verify_lockout_expired_counterexample:
  "fst (VerifyOTPSerializer_validate 600 5000 [otp1\<lparr>attempts := 5\<rparr>]
          \<lparr>va_email = ''a@x.com'', va_code = ''123456''\<rparr>) = Inl Expired \<and>
   Expired \<noteq> AttemptsExceeded \<and>
   attempts (otp1\<lparr>attempts := 5\<rparr>) = 5 \<and> code (otp1\<lparr>attempts := 5\<rparr>) = ''123456''"
  by code_simp

section \<open>Properties of the life of a record\<close>

text \<open>
  C6, as the code has it. A verification never adds or removes a row, and it changes the
  table only by storing the attempts of the selected record increased by one, which
  happens only when that record is a row of the table, is not expired, has fewer than 5
  attempts and its code differs from the submitted one; the flag \<open>is_verified\<close> plays
  no part. A key that is not in the table, as that of a deleted record, is not in the
  table afterwards either. Completing a registration leaves only rows that were there
  before, unchanged, and the key of the consumed record is gone.
\<close>

theorem attempts_incremented_only_on_live_mismatch:
  "map pk (snd (VerifyOTPSerializer_validate ttl now db attrs)) = map pk db \<and>
   (snd (VerifyOTPSerializer_validate ttl now db attrs) \<noteq> db \<longrightarrow>
      (\<exists>r. verify_lookup db (lower (strip (va_email attrs))) = Some r \<and> r \<in> set db \<and>
           \<not> is_expired ttl now r \<and> attempts r < 5 \<and> code r \<noteq> strip (va_code attrs) \<and>
           snd (VerifyOTPSerializer_validate ttl now db attrs) =
             save_attempts db (pk r) (attempts r + 1))) \<and>
   (k \<notin> set (map pk db) \<longrightarrow> k \<notin> set (map pk (snd (VerifyOTPSerializer_validate ttl now db attrs)))) \<and>
   set (snd (RegisterSerializer_create account db otp)) \<subseteq> set db \<and>
   pk otp \<notin> set (map pk (snd (RegisterSerializer_create (Inr u) db otp)))"
proof (intro conjI)
  show "map pk (snd (VerifyOTPSerializer_validate ttl now db attrs)) = map pk db"
    by (rule verify_validate_pks)
  show "snd (VerifyOTPSerializer_validate ttl now db attrs) \<noteq> db \<longrightarrow>
      (\<exists>r. verify_lookup db (lower (strip (va_email attrs))) = Some r \<and> r \<in> set db \<and>
           \<not> is_expired ttl now r \<and> attempts r < 5 \<and> code r \<noteq> strip (va_code attrs) \<and>
           snd (VerifyOTPSerializer_validate ttl now db attrs) =
             save_attempts db (pk r) (attempts r + 1))"
  proof (cases "verify_lookup db (lower (strip (va_email attrs)))")
    case None
    then show ?thesis by (simp add: VerifyOTPSerializer_validate_def)
  next
    case (Some r)
    have "r \<in> set db" using verify_lookup_mem [OF Some] .
    with Some show ?thesis by (simp add: VerifyOTPSerializer_validate_def)
  qed
  show "k \<notin> set (map pk db) \<longrightarrow>
        k \<notin> set (map pk (snd (VerifyOTPSerializer_validate ttl now db attrs)))"
    by (simp only: verify_validate_pks) simp
  show "set (snd (RegisterSerializer_create account db otp)) \<subseteq> set db"
    by (cases account) (auto simp: RegisterSerializer_create_def delete_def)
  show "pk otp \<notin> set (map pk (snd (RegisterSerializer_create (Inr u) db otp)))"
    by (auto simp: RegisterSerializer_create_def delete_def)
qed

theorem attempts_incremented_only_on_live_mismatch_witness:
  "\<exists>r. verify_lookup [otp1\<lparr>is_verified := True\<rparr>] ''a@x.com'' = Some r \<and>
       \<not> is_expired 600 100 r \<and> attempts r < 5 \<and> code r \<noteq> ''000000'' \<and>
       snd (VerifyOTPSerializer_validate 600 100 [otp1\<lparr>is_verified := True\<rparr>]
              \<lparr>va_email = ''a@x.com'', va_code = ''000000''\<rparr>)
         = save_attempts [otp1\<lparr>is_verified := True\<rparr>] (pk r) (attempts r + 1)"
proof -
  have ne: "snd (VerifyOTPSerializer_validate 600 100 [otp1\<lparr>is_verified := True\<rparr>]
                  \<lparr>va_email = ''a@x.com'', va_code = ''000000''\<rparr>)
              \<noteq> [otp1\<lparr>is_verified := True\<rparr>]"
    by code_simp
  have n: "lower (strip (va_email \<lparr>va_email = ''a@x.com'', va_code = ''000000''\<rparr>))
             = ''a@x.com''"
    by code_simp
  have c: "strip (va_code \<lparr>va_email = ''a@x.com'', va_code = ''000000''\<rparr>) = ''000000''"
    by code_simp
  from attempts_incremented_only_on_live_mismatch
         [of 600 100 "[otp1\<lparr>is_verified := True\<rparr>]"
             "\<lparr>va_email = ''a@x.com'', va_code = ''000000''\<rparr>",
          THEN conjunct2, THEN conjunct1, rule_format, OF ne]
  show ?thesis unfolding n c by blast
qed

text \<open>
  The claim C6 as stated, that the attempts are never incremented once the record is
  verified, fails: a wrong code submitted against a verified, unexpired record with no
  attempts so far stores 1 attempt.
\<close>

theorem attempts_incremented_after_verified_counterexample:
  "is_verified (otp1\<lparr>is_verified := True\<rparr>) \<and>
   snd (VerifyOTPSerializer_validate 600 100 [otp1\<lparr>is_verified := True\<rparr>]
          \<lparr>va_email = ''a@x.com'', va_code = ''000000''\<rparr>)
     = [otp1\<lparr>is_verified := True, attempts := 1\<rparr>]"
  by code_simp

section \<open>Properties of the registration\<close>

text \<open>
  C7, as the code has it. A registration without an email, or with an empty one, fails
  with the error that the email is required, which is not the error for the token, before
  any lookup. With an email, the most recently created record with the token, the purpose
  of registration and the email (compared without regard to case) is looked up: if there
  is none, or it is not verified, or it is expired, the registration fails with the error
  for an invalid or expired token; otherwise it succeeds with that record. The outcome
  depends on the table and the current time only.
\<close>

theorem register_validate_token_check:
  "EmailRequired \<noteq> InvalidOrExpiredToken \<and>
   (ra_email attrs = None \<or> ra_email attrs = Some [] \<longrightarrow>
      RegisterSerializer_validate ttl now db attrs = Inl EmailRequired) \<and>
   (\<forall>e. ra_email attrs = Some e \<and> e \<noteq> [] \<longrightarrow>
      (case register_lookup db (ra_otp_token attrs) e of
         None \<Rightarrow> RegisterSerializer_validate ttl now db attrs = Inl InvalidOrExpiredToken
       | Some r \<Rightarrow>
           r \<in> set db \<and> token r = ra_otp_token attrs \<and>
           purpose r = PURPOSE_REGISTRATION \<and> iexact (email r) e \<and>
           (\<forall>s \<in> set db.
              token s = ra_otp_token attrs \<and> purpose s = PURPOSE_REGISTRATION \<and>
              iexact (email s) e \<longrightarrow> created_at s \<le> created_at r) \<and>
           RegisterSerializer_validate ttl now db attrs =
             (if is_verified r \<and> \<not> is_expired ttl now r then Inr r
              else Inl InvalidOrExpiredToken)) \<and>
      ((register_lookup db (ra_otp_token attrs) e = None) =
         (\<forall>s \<in> set db. \<not> (token s = ra_otp_token attrs \<and>
            purpose s = PURPOSE_REGISTRATION \<and> iexact (email s) e))))"
proof (intro conjI allI impI)
  show "EmailRequired \<noteq> InvalidOrExpiredToken" by (simp add: error_defs)
next
  assume "ra_email attrs = None \<or> ra_email attrs = Some []"
  then show "RegisterSerializer_validate ttl now db attrs = Inl EmailRequired"
    by (auto simp: RegisterSerializer_validate_def)
next
  fix e assume e: "ra_email attrs = Some e \<and> e \<noteq> []"
  show "case register_lookup db (ra_otp_token attrs) e of
         None \<Rightarrow> RegisterSerializer_validate ttl now db attrs = Inl InvalidOrExpiredToken
       | Some r \<Rightarrow>
           r \<in> set db \<and> token r = ra_otp_token attrs \<and>
           purpose r = PURPOSE_REGISTRATION \<and> iexact (email r) e \<and>
           (\<forall>s \<in> set db.
              token s = ra_otp_token attrs \<and> purpose s = PURPOSE_REGISTRATION \<and>
              iexact (email s) e \<longrightarrow> created_at s \<le> created_at r) \<and>
           RegisterSerializer_validate ttl now db attrs =
             (if is_verified r \<and> \<not> is_expired ttl now r then Inr r
              else Inl InvalidOrExpiredToken)"
  proof (cases "register_lookup db (ra_otp_token attrs) e")
    case None
    with e show ?thesis by (simp add: RegisterSerializer_validate_def)
  next
    case (Some r)
    have m: "r \<in> set db" using register_lookup_mem [OF Some] .
    have ma: "token r = ra_otp_token attrs \<and> purpose r = PURPOSE_REGISTRATION \<and>
              iexact (email r) e"
      using register_lookup_match [OF Some] .
    have mx: "\<forall>s \<in> set db.
              token s = ra_otp_token attrs \<and> purpose s = PURPOSE_REGISTRATION \<and>
              iexact (email s) e \<longrightarrow> created_at s \<le> created_at r"
      using register_lookup_max [OF Some] by blast
    have rv: "RegisterSerializer_validate ttl now db attrs =
             (if is_verified r \<and> \<not> is_expired ttl now r then Inr r
              else Inl InvalidOrExpiredToken)"
      using e Some by (simp add: RegisterSerializer_validate_def)
    from m ma mx rv show ?thesis by (simp only: Some option.case)
  qed
next
  fix e assume "ra_email attrs = Some e \<and> e \<noteq> []"
  show "(register_lookup db (ra_otp_token attrs) e = None) =
         (\<forall>s \<in> set db. \<not> (token s = ra_otp_token attrs \<and>
            purpose s = PURPOSE_REGISTRATION \<and> iexact (email s) e))"
    by (rule register_lookup_None)
qed

theorem register_validate_token_check_witness:
  "RegisterSerializer_validate 600 100 [otp1\<lparr>is_verified := True\<rparr>]
     \<lparr>ra_email = Some ''a@x.com'', ra_otp_token = ''t1''\<rparr> = Inr (otp1\<lparr>is_verified := True\<rparr>) \<and>
   RegisterSerializer_validate 600 100 [otp1]
     \<lparr>ra_email = Some ''a@x.com'', ra_otp_token = ''t1''\<rparr> = Inl InvalidOrExpiredToken"
proof -
  have e: "ra_email \<lparr>ra_email = Some ''a@x.com'', ra_otp_token = ''t1''\<rparr> = Some ''a@x.com'' \<and>
           ''a@x.com'' \<noteq> []"
    by simp
  have l1: "register_lookup [otp1\<lparr>is_verified := True\<rparr>]
              (ra_otp_token \<lparr>ra_email = Some ''a@x.com'', ra_otp_token = ''t1''\<rparr>) ''a@x.com''
            = Some (otp1\<lparr>is_verified := True\<rparr>)"
    by code_simp
  have l2: "register_lookup [otp1]
              (ra_otp_token \<lparr>ra_email = Some ''a@x.com'', ra_otp_token = ''t1''\<rparr>) ''a@x.com''
            = Some otp1"
    by code_simp
  have x: "\<not> is_expired 600 100 (otp1\<lparr>is_verified := True\<rparr>)" by (simp add: is_expired_def)
  from register_validate_token_check
         [of "\<lparr>ra_email = Some ''a@x.com'', ra_otp_token = ''t1''\<rparr>" 600 100
             "[otp1\<lparr>is_verified := True\<rparr>]",
          THEN conjunct2, THEN conjunct2, rule_format, OF e, THEN conjunct1]
  have one: "RegisterSerializer_validate 600 100 [otp1\<lparr>is_verified := True\<rparr>]
     \<lparr>ra_email = Some ''a@x.com'', ra_otp_token = ''t1''\<rparr> = Inr (otp1\<lparr>is_verified := True\<rparr>)"
    unfolding l1 option.case using x by simp
  from register_validate_token_check
         [of "\<lparr>ra_email = Some ''a@x.com'', ra_otp_token = ''t1''\<rparr>" 600 100 "[otp1]",
          THEN conjunct2, THEN conjunct2, rule_format, OF e, THEN conjunct1]
  have two: "RegisterSerializer_validate 600 100 [otp1]
     \<lparr>ra_email = Some ''a@x.com'', ra_otp_token = ''t1''\<rparr> = Inl InvalidOrExpiredToken"
    unfolding l2 option.case by simp
  from one two show ?thesis by (rule conjI)
qed

text \<open>
  The claim C7 as stated, that the only error is the one for an invalid or expired
  token, fails: with no email, or an empty one, the error is that the email is required.
\<close>

theorem register_validate_email_required_counterexample:
  "RegisterSerializer_validate 600 100 [] \<lparr>ra_email = None, ra_otp_token = ''t1''\<rparr>
     = Inl EmailRequired \<and>
   RegisterSerializer_validate 600 100 [] \<lparr>ra_email = Some '''', ra_otp_token = ''t1''\<rparr>
     = Inl EmailRequired \<and>
   EmailRequired \<noteq> InvalidOrExpiredToken"
  by code_simp




text \<open>
  C9. When the table has a record for the email and the purpose of registration, the
  lookup of a verification returns one of them whose creation time no other exceeds. A
  record is never returned while a later one for the same email is in the table, and a
  record created after all others for the email is the one returned. The earlier records
  are not deleted: a verification keeps the keys of all rows, and, keys being distinct,
  every row other than the selected one is in the table afterwards as it was.
\<close>

theorem verify_lookup_most_recent:
  "((\<exists>s \<in> set db. iexact (email s) e \<and> purpose s = PURPOSE_REGISTRATION) \<longrightarrow>
      (\<exists>r. verify_lookup db e = Some r \<and> r \<in> set db \<and>
           iexact (email r) e \<and> purpose r = PURPOSE_REGISTRATION \<and>
           (\<forall>s \<in> set db. iexact (email s) e \<and> purpose s = PURPOSE_REGISTRATION \<longrightarrow>
              created_at s \<le> created_at r))) \<and>
   (r1 \<in> set db \<and> r2 \<in> set db \<and>
    iexact (email r2) e \<and> purpose r2 = PURPOSE_REGISTRATION \<and>
    created_at r1 < created_at r2 \<longrightarrow> verify_lookup db e \<noteq> Some r1) \<and>
   (r2 \<in> set db \<and> iexact (email r2) e \<and> purpose r2 = PURPOSE_REGISTRATION \<and>
    (\<forall>s \<in> set db. iexact (email s) e \<and> purpose s = PURPOSE_REGISTRATION \<and> s \<noteq> r2 \<longrightarrow>
       created_at s < created_at r2) \<longrightarrow> verify_lookup db e = Some r2) \<and>
   map pk (snd (VerifyOTPSerializer_validate ttl now db attrs)) = map pk db \<and>
   (distinct (map pk db) \<and> r1 \<in> set db \<and>
    verify_lookup db (lower (strip (va_email attrs))) \<noteq> Some r1 \<longrightarrow>
      r1 \<in> set (snd (VerifyOTPSerializer_validate ttl now db attrs)))"
proof (intro conjI impI)
  assume "\<exists>s \<in> set db. iexact (email s) e \<and> purpose s = PURPOSE_REGISTRATION"
  then have "verify_lookup db e \<noteq> None" by (simp add: verify_lookup_None)
  then obtain r where r: "verify_lookup db e = Some r" by auto
  have "r \<in> set db" using verify_lookup_mem [OF r] .
  moreover have "iexact (email r) e \<and> purpose r = PURPOSE_REGISTRATION"
    using verify_lookup_match [OF r] .
  moreover have "\<forall>s \<in> set db. iexact (email s) e \<and> purpose s = PURPOSE_REGISTRATION \<longrightarrow>
              created_at s \<le> created_at r"
    using verify_lookup_max [OF r] by blast
  ultimately show "\<exists>r. verify_lookup db e = Some r \<and> r \<in> set db \<and>
           iexact (email r) e \<and> purpose r = PURPOSE_REGISTRATION \<and>
           (\<forall>s \<in> set db. iexact (email s) e \<and> purpose s = PURPOSE_REGISTRATION \<longrightarrow>
              created_at s \<le> created_at r)"
    using r by blast
next
  assume a: "r1 \<in> set db \<and> r2 \<in> set db \<and>
    iexact (email r2) e \<and> purpose r2 = PURPOSE_REGISTRATION \<and>
    created_at r1 < created_at r2"
  show "verify_lookup db e \<noteq> Some r1"
  proof
    assume "verify_lookup db e = Some r1"
    from verify_lookup_max [OF this, of r2] a have "created_at r2 \<le> created_at r1" by simp
    with a show False by simp
  qed
next
  assume "r2 \<in> set db \<and> iexact (email r2) e \<and> purpose r2 = PURPOSE_REGISTRATION \<and>
    (\<forall>s \<in> set db. iexact (email s) e \<and> purpose s = PURPOSE_REGISTRATION \<and> s \<noteq> r2 \<longrightarrow>
       created_at s < created_at r2)"
  then show "verify_lookup db e = Some r2"
    by (intro verify_lookup_newest) simp_all
next
  show "map pk (snd (VerifyOTPSerializer_validate ttl now db attrs)) = map pk db"
    by (rule verify_validate_pks)
next
  assume "distinct (map pk db) \<and> r1 \<in> set db \<and>
    verify_lookup db (lower (strip (va_email attrs))) \<noteq> Some r1"
  then show "r1 \<in> set (snd (VerifyOTPSerializer_validate ttl now db attrs))"
    by (intro verify_validate_keeps_others) simp_all
qed

theorem verify_lookup_most_recent_witness:
  "verify_lookup [otp1, otp1\<lparr>pk := 2, code := ''654321'', token := ''t2'', created_at := 50\<rparr>]
     ''a@x.com''
     = Some (otp1\<lparr>pk := 2, code := ''654321'', token := ''t2'', created_at := 50\<rparr>) \<and>
   otp1 \<in> set (snd (VerifyOTPSerializer_validate 600 100
     [otp1, otp1\<lparr>pk := 2, code := ''654321'', token := ''t2'', created_at := 50\<rparr>]
     \<lparr>va_email = ''a@x.com'', va_code = ''123456''\<rparr>))"
proof -
  let ?r2 = "otp1\<lparr>pk := 2, code := ''654321'', token := ''t2'', created_at := 50\<rparr>"
  let ?db = "[otp1, ?r2]"
  let ?a = "\<lparr>va_email = ''a@x.com'', va_code = ''123456''\<rparr>"
  note t = verify_lookup_most_recent [of ?db "''a@x.com''" otp1 ?r2 600 100 ?a]
  have ie: "iexact (email ?r2) ''a@x.com''" by code_simp
  have n: "lower (strip (va_email ?a)) = ''a@x.com''" by code_simp
  have p: "?r2 \<in> set ?db \<and> iexact (email ?r2) ''a@x.com'' \<and> purpose ?r2 = PURPOSE_REGISTRATION \<and>
    (\<forall>s \<in> set ?db. iexact (email s) ''a@x.com'' \<and> purpose s = PURPOSE_REGISTRATION \<and> s \<noteq> ?r2 \<longrightarrow>
       created_at s < created_at ?r2)"
    using ie by simp
  from t [THEN conjunct2, THEN conjunct2, THEN conjunct1, rule_format, OF p]
  have one: "verify_lookup ?db ''a@x.com'' = Some ?r2" .
  have q: "distinct (map pk ?db) \<and> otp1 \<in> set ?db \<and>
    verify_lookup ?db (lower (strip (va_email ?a))) \<noteq> Some otp1"
    unfolding n one by simp
  from t [THEN conjunct2, THEN conjunct2, THEN conjunct2, THEN conjunct2, rule_format, OF q]
  have two: "otp1 \<in> set (snd (VerifyOTPSerializer_validate 600 100 ?db ?a))" .
  from one two show ?thesis by (rule conjI)
qed

end
